theory Spec2Isabelle
  imports Complex_Main "HOL-Library.Product_Lexorder"
begin

section \<open>The Ion model of ionize\<close>

text \<open>
  A shallow embedding of \<^verbatim>\<open>ionize/Ion/__init__.py\<close>,
  \<^verbatim>\<open>ionize/Ion/diffusivity.py\<close> and
  \<^verbatim>\<open>ionize/Ion/robinson_stokes_mobility.py\<close>.

  Conventions of the embedding:
  \<^item> a Python \<^verbatim>\<open>float\<close> is a \<^typ>\<open>real\<close>: rounding, infinities, NaN and the
    negative zero are not represented, and the only zero carries the positive sign;
  \<^item> a Python \<^verbatim>\<open>int\<close> is an \<^typ>\<open>int\<close>, so the list \<^verbatim>\<open>z\<close> holds integers by its
    type;
  \<^item> an exception is the \<open>Inl\<close> branch of a sum, a warning is a string appended to the
    list of warnings that the operation returns with its result;
  \<^item> an object mutated in place is a record passed in and returned updated.
\<close>

subsection \<open>Exceptions\<close>

datatype error =
    AssertionError string
  | ValueError string
  | ZeroDivisionError
  | ComplexResult

text \<open>
  \<open>ComplexResult\<close> is not a Python exception: it marks a computation that leaves the real
  numbers (a negative float raised to a fractional power is a complex number in Python 3).
  What the program does with the complex value is not modelled.
\<close>

subsection \<open>Arguments that may be a scalar or an iterable\<close>

datatype 'a arg = Scalar 'a | Seq "'a list"

text \<open>
  \<^verbatim>\<open>try: self.z = [zp for zp in z]  except: self.z = [z]\<close>
\<close>

fun as_list :: "'a arg \<Rightarrow> 'a list" where
  "as_list (Seq xs) = xs"
| "as_list (Scalar x) = [x]"

subsection \<open>numpy's poly1d, as far as the Ion uses it\<close>

text \<open>
  \<^verbatim>\<open>np.poly1d(c)\<close> stores the coefficients, highest power first, without leading zeros
  (a list left empty becomes \<^verbatim>\<open>[0]\<close>). Calling it evaluates the polynomial by Horner's
  rule. The class defines \<^verbatim>\<open>__len__\<close> as the order of the polynomial and no
  \<^verbatim>\<open>__bool__\<close>, so an instance is truthy exactly when its order is positive.
\<close>

definition poly1d :: "real list \<Rightarrow> real list" where
  "poly1d c = (case dropWhile (\<lambda>a. a = 0) c of [] \<Rightarrow> [0] | a # as \<Rightarrow> a # as)"

definition poly1d_call :: "real list \<Rightarrow> real \<Rightarrow> real" where
  "poly1d_call p x = foldl (\<lambda>y a. y * x + a) 0 p"

definition poly1d_order :: "real list \<Rightarrow> nat" where
  "poly1d_order p = length p - 1"

definition poly1d_truthy :: "real list \<Rightarrow> bool" where
  "poly1d_truthy p = (0 < poly1d_order p)"

subsection \<open>The data model\<close>

record nightingale =
  nd_fit :: "real list"
  nd_min :: real
  nd_max :: real

text \<open>
  The attributes of an \<^verbatim>\<open>Ion\<close> instance. \<open>self_T_ref\<close>, \<open>self_pKa_ref\<close>,
  \<open>self_absolute_mobility_ref\<close> and \<open>self_nightingale_function\<close> are the attributes
  \<^verbatim>\<open>_T_ref\<close>, \<^verbatim>\<open>_pKa_ref\<close>, \<^verbatim>\<open>_absolute_mobility_ref\<close> and
  \<^verbatim>\<open>_nightingale_function\<close>.
\<close>

record ion =
  self_name :: string
  self_T :: real
  self_T_ref :: real
  self_dH :: "real list option"
  self_dCp :: "real list option"
  self_nightingale_data :: "nightingale option"
  self_nightingale_function :: "real list option"
  self_z :: "int list"
  self_pKa_ref :: "real list"
  self_absolute_mobility_ref :: "real list"
  self_pKa :: "real list"
  self_absolute_mobility :: "real list"
  self_z0 :: "int list"

text \<open>
  The collaborators whose code is not part of the sources at hand are parameters:
  the solvent \<^verbatim>\<open>Aqueous\<close> with its \<^verbatim>\<open>viscosity\<close> and \<^verbatim>\<open>dielectric\<close> (both
  taken to return Python floats), and the methods \<^verbatim>\<open>_correct_pKa\<close> and
  \<^verbatim>\<open>ionization_fraction\<close> of the Ion.
\<close>

record env =
  viscosity :: "real \<Rightarrow> real"
  dielectric :: "real \<Rightarrow> real"
  correct_pKa :: "ion \<Rightarrow> real list"
  ionization_fraction :: "ion \<Rightarrow> real \<Rightarrow> real list"

subsection \<open>Helpers from the Python library\<close>

text \<open>\<^verbatim>\<open>math.copysign(x, y)\<close>: the magnitude of \<open>x\<close> with the sign of \<open>y\<close>.\<close>

definition copysign :: "real \<Rightarrow> real \<Rightarrow> real" where
  "copysign x y = (if y < 0 then - \<bar>x\<bar> else \<bar>x\<bar>)"

text \<open>
  \<^verbatim>\<open>min\<close> and \<^verbatim>\<open>max\<close> of a list of integers. Python raises on the empty list;
  the model only calls them on a list with a first element.
\<close>

fun py_min :: "int list \<Rightarrow> int" where
  "py_min [] = 0"
| "py_min (x # xs) = fold min xs x"

fun py_max :: "int list \<Rightarrow> int" where
  "py_max [] = 0"
| "py_max (x # xs) = fold max xs x"

subsection \<open>Sorting the charge states\<close>

text \<open>
  \<^verbatim>\<open>_z_sort\<close>; \<open>sorted_states\<close> is its \<^verbatim>\<open>sorted(zip(...))\<close>. \<^verbatim>\<open>zip\<close> stops at the shortest of the three lists, \<^verbatim>\<open>sorted\<close> orders
  the tuples lexicographically, and unpacking \<^verbatim>\<open>zip(*[])\<close> into three names raises
  \<^verbatim>\<open>ValueError\<close>. The assertion compares \<^verbatim>\<open>set(self.z)\<close> with the run of integers
  from the least to the greatest charge, zero removed.
\<close>

definition sorted_states :: "ion \<Rightarrow> (int \<times> real \<times> real) list" where
  "sorted_states self =
     sort (zip (self_z self) (zip (self_pKa self) (self_absolute_mobility self)))"

definition z_sort :: "ion \<Rightarrow> error + ion" where
  "z_sort self =
    (case sorted_states self of
       [] \<Rightarrow> Inl (ValueError ''not enough values to unpack'')
     | t # ts \<Rightarrow>
        (let z' = map fst (t # ts);
             pKa' = map (fst \<circ> snd) (t # ts);
             mob' = map (snd \<circ> snd) (t # ts);
             full = set [py_min z' .. py_max z'] - {0}
         in if (set z' - full) \<union> (full - set z') = {}
            then Inr (self\<lparr>self_z := z', self_pKa := pKa', self_absolute_mobility := mob'\<rparr>)
            else Inl (AssertionError ''Charge states missing.'')))"

text \<open>\<^verbatim>\<open>_set_z0\<close>\<close>

definition set_z0 :: "ion \<Rightarrow> ion" where
  "set_z0 self = self\<lparr>self_z0 := sort (0 # self_z self)\<rparr>"

subsection \<open>Temperature adjustment\<close>

text \<open>
  The branch of \<^verbatim>\<open>temperature_adjust\<close> that stores \<^verbatim>\<open>pKa\<close> and
  \<^verbatim>\<open>absolute_mobility\<close>, before the sort. A division by the viscosity is only
  evaluated when the comprehension has an element to compute. The literal
  \<^verbatim>\<open>10.35e-11\<close> is \<open>10.35 / 10 ^ 11\<close>.
\<close>

definition adjust_values :: "env \<Rightarrow> ion \<Rightarrow> error + (ion \<times> string list)" where
  "adjust_values e self =
    (if self_T self = self_T_ref self
     then Inr (self\<lparr>self_pKa := self_pKa_ref self,
                     self_absolute_mobility := self_absolute_mobility_ref self\<rparr>, [])
     else
       (let self1 = self\<lparr>self_pKa := correct_pKa e self\<rparr> in
        case (if (case self_nightingale_function self1 of None \<Rightarrow> False
                  | Some p \<Rightarrow> poly1d_truthy p)
              then self_nightingale_function self1 else None) of
          Some p \<Rightarrow>
            if self_z self1 \<noteq> [] \<and> viscosity e (self_T self1) = 0
            then Inl ZeroDivisionError
            else
              (let self2 = self1\<lparr>self_absolute_mobility :=
                     map (\<lambda>z. poly1d_call p (self_T self1) * (10.35 / 10 ^ 11) * of_int z
                               / viscosity e (self_T self1)) (self_z self1)\<rparr>
               in case self_nightingale_data self2 of
                    None \<Rightarrow> Inr (self2, [])
                  | Some nd \<Rightarrow>
                      if self_T self2 > nd_max nd \<or> self_T self2 < nd_min nd
                      then Inr (self2, [''Temperature outside rangefor nightingale data.''])
                      else Inr (self2, []))
        | None \<Rightarrow>
            if self_absolute_mobility_ref self1 \<noteq> [] \<and> viscosity e (self_T self1) = 0
            then Inl ZeroDivisionError
            else Inr (self1\<lparr>self_absolute_mobility :=
                     map (\<lambda>m. viscosity e (self_T_ref self1) / viscosity e (self_T self1) * m)
                         (self_absolute_mobility_ref self1)\<rparr>, [])))"

definition temperature_adjust :: "env \<Rightarrow> ion \<Rightarrow> error + (ion \<times> string list)" where
  "temperature_adjust e self =
    (case adjust_values e self of
       Inl err \<Rightarrow> Inl err
     | Inr (self1, ws) \<Rightarrow>
        (case z_sort self1 of
           Inl err \<Rightarrow> Inl err
         | Inr self2 \<Rightarrow> Inr (set_z0 self2, ws)))"

subsection \<open>Construction\<close>

text \<open>
  \<^verbatim>\<open>Ion.__init__\<close>. The derived attributes \<^verbatim>\<open>pKa\<close>, \<^verbatim>\<open>absolute_mobility\<close> and
  \<^verbatim>\<open>z0\<close> are \<^verbatim>\<open>None\<close> on the class and are first assigned by
  \<^verbatim>\<open>temperature_adjust\<close>; the record starts them as empty lists. The check
  \<^verbatim>\<open>isinstance(zp, int)\<close> holds by the type of \<open>self_z\<close>.
\<close>

definition init_attributes ::
  "string \<Rightarrow> int arg \<Rightarrow> real arg \<Rightarrow> real arg \<Rightarrow> real list option \<Rightarrow> real list option
     \<Rightarrow> nightingale option \<Rightarrow> real \<Rightarrow> real \<Rightarrow> ion" where
  "init_attributes name z pKa_ref absolute_mobility_ref dH dCp nightingale_data T T_ref =
     \<lparr> self_name = name, self_T = T, self_T_ref = T_ref,
       self_dH = dH, self_dCp = dCp,
       self_nightingale_data = nightingale_data,
       self_nightingale_function =
         (case nightingale_data of None \<Rightarrow> None
          | Some nd \<Rightarrow> Some (poly1d (nd_fit nd))),
       self_z = as_list z,
       self_pKa_ref = as_list pKa_ref,
       self_absolute_mobility_ref = as_list absolute_mobility_ref,
       self_pKa = [], self_absolute_mobility = [], self_z0 = [] \<rparr>"

text \<open>
  The test \<^verbatim>\<open>all([copysign(z, m) == z for z, m in zip(self.z, self.absolute_mobility)])\<close>.
\<close>

definition signs_match :: "ion \<Rightarrow> bool" where
  "signs_match self =
     list_all (\<lambda>(z, m). copysign (of_int z) m = of_int z)
              (zip (self_z self) (self_absolute_mobility self))"

text \<open>The coercion of the signs, with its warning.\<close>

definition force_signs :: "ion \<Rightarrow> string list \<Rightarrow> ion \<times> string list" where
  "force_signs self ws =
     (if \<not> signs_match self
      then (self\<lparr>self_absolute_mobility :=
                    map (\<lambda>(z, m). copysign m (of_int z))
                        (zip (self_z self) (self_absolute_mobility self))\<rparr>,
            ws @ [''Mobility signs and charge signs don't match.''])
      else (self, ws))"

definition Ion_init ::
  "env \<Rightarrow> string \<Rightarrow> int arg \<Rightarrow> real arg \<Rightarrow> real arg \<Rightarrow> real list option \<Rightarrow> real list option
     \<Rightarrow> nightingale option \<Rightarrow> real \<Rightarrow> real \<Rightarrow> error + (ion \<times> string list)" where
  "Ion_init e name z pKa_ref absolute_mobility_ref dH dCp nightingale_data T T_ref =
    (case temperature_adjust e
            (init_attributes name z pKa_ref absolute_mobility_ref dH dCp nightingale_data T T_ref) of
       Inl err \<Rightarrow> Inl err
     | Inr (self1, ws) \<Rightarrow>
        (case force_signs self1 ws of
           (self2, ws2) \<Rightarrow>
             if length (self_pKa self2) \<noteq> length (self_z self2)
             then Inl (AssertionError ''pKa is not the same length as z'')
             else if length (self_absolute_mobility self2) \<noteq> length (self_z self2)
             then Inl (AssertionError ''absolute_mobility is not the same length as z'')
             else Inr (self2, ws2)))"

text \<open>\<^verbatim>\<open>set_T\<close>: store the temperature, adjust, return the instance.\<close>

definition set_T :: "env \<Rightarrow> ion \<Rightarrow> real \<Rightarrow> error + (ion \<times> string list)" where
  "set_T e self T = temperature_adjust e (self\<lparr>self_T := T\<rparr>)"

subsection \<open>Diffusivity\<close>

text \<open>The constants of \<^verbatim>\<open>constants.py\<close> that \<^verbatim>\<open>diffusivity\<close> imports.\<close>

definition boltzmann :: real where
  "boltzmann = 1.38 / 10 ^ 23"

definition elementary_charge :: real where
  "elementary_charge = 1.602 / 10 ^ 19"

text \<open>
  The list comprehension of \<^verbatim>\<open>diffusivity\<close>: one term \<^verbatim>\<open>m * f / float(z)\<close> for each
  triple of the \<^verbatim>\<open>zip\<close>, raising \<^verbatim>\<open>ZeroDivisionError\<close> at the first zero charge.
\<close>

fun diffusivity_terms :: "(real \<times> real \<times> int) list \<Rightarrow> error + real list" where
  "diffusivity_terms [] = Inr []"
| "diffusivity_terms ((m, f, z) # ts) =
     (if z = 0 then Inl ZeroDivisionError
      else case diffusivity_terms ts of
             Inl err \<Rightarrow> Inl err
           | Inr rs \<Rightarrow> Inr (m * f / of_int z # rs))"

definition diffusivity :: "env \<Rightarrow> ion \<Rightarrow> real \<Rightarrow> error + real" where
  "diffusivity e self pH =
    (case diffusivity_terms (zip (self_absolute_mobility self)
                                 (zip (ionization_fraction e self pH) (self_z self))) of
       Inl err \<Rightarrow> Inl err
     | Inr ts \<Rightarrow>
        (let d = sum_list ts * boltzmann * (self_T self + 273.15) / elementary_charge
         in if sum_list (ionization_fraction e self pH) = 0 then Inl ZeroDivisionError
            else Inr (d / sum_list (ionization_fraction e self pH))))"

subsection \<open>The Robinson-Stokes mobility\<close>

text \<open>
  The argument \<^verbatim>\<open>T\<close> of \<^verbatim>\<open>robinson_stokes_mobility(obj, I, T=25)\<close>: left out, the value
  \<^verbatim>\<open>None\<close>, or a number.
\<close>

datatype T_arg = Omitted | PyNone | Num real

text \<open>
  The default of the signature and the guard \<^verbatim>\<open>if not T: T = obj.T\<close>; \<^verbatim>\<open>None\<close> and
  the number zero are the falsy values.
\<close>

definition effective_T :: "ion \<Rightarrow> T_arg \<Rightarrow> real" where
  "effective_T obj T =
    (case (case T of Omitted \<Rightarrow> Num 25 | PyNone \<Rightarrow> PyNone | Num t \<Rightarrow> Num t) of
       Num t \<Rightarrow> if t = 0 then self_T obj else t
     | _ \<Rightarrow> self_T obj)"

text \<open>The class attribute \<^verbatim>\<open>_aD\<close>.\<close>

definition aD :: real where
  "aD = 1.5"

text \<open>
  \<^verbatim>\<open>x ** y\<close> for a float \<open>x\<close> and a negative, non-integer float \<open>y\<close>: a zero base
  raises \<^verbatim>\<open>ZeroDivisionError\<close>, a negative base gives a complex number, which the real
  model reports as \<open>ComplexResult\<close>.
\<close>

definition py_pow_neg :: "real \<Rightarrow> real \<Rightarrow> error + real" where
  "py_pow_neg x y =
    (if x = 0 then Inl ZeroDivisionError
     else if x < 0 then Inl ComplexResult
     else Inr (x powr y))"

text \<open>
  The base \<^verbatim>\<open>(T_ref+273.15)*d_ref/(T+273.15)/d\<close> of both powers, as the source computes
  it: \<^verbatim>\<open>d\<close> and \<^verbatim>\<open>d_ref\<close> are both \<^verbatim>\<open>obj.dielectric(T)\<close>.
\<close>

definition rsm_ratio :: "env \<Rightarrow> real \<Rightarrow> error + real" where
  "rsm_ratio e T =
    (let T_ref = 25;
         d = dielectric e T;
         d_ref = dielectric e T
     in if T + 273.15 = 0 then Inl ZeroDivisionError
        else if d = 0 then Inl ZeroDivisionError
        else Inr ((T_ref + 273.15) * d_ref / (T + 273.15) / d))"

text \<open>The coefficients \<^verbatim>\<open>A\<close> and \<^verbatim>\<open>B\<close>.\<close>

definition rsm_coefficients :: "env \<Rightarrow> real \<Rightarrow> error + (real \<times> real)" where
  "rsm_coefficients e T =
    (case rsm_ratio e T of
       Inl err \<Rightarrow> Inl err
     | Inr r \<Rightarrow>
        (case py_pow_neg r (- 1.5) of
           Inl err \<Rightarrow> Inl err
         | Inr pA \<Rightarrow>
            (case py_pow_neg r (- 0.5) of
               Inl err \<Rightarrow> Inl err
             | Inr pB \<Rightarrow>
                 if viscosity e T = 0 then Inl ZeroDivisionError
                 else Inr (0.2297 * pA,
                           31.410 / 10 ^ 9 * pB * viscosity e 25 / viscosity e T))))"

text \<open>
  The loop over \<^verbatim>\<open>zip(obj.absolute_mobility, obj.z)\<close>; \<^verbatim>\<open>math.sqrt\<close> raises
  \<^verbatim>\<open>ValueError\<close> on a negative argument.
\<close>

fun rsm_loop :: "real \<Rightarrow> real \<Rightarrow> real \<Rightarrow> (real \<times> int) list \<Rightarrow> error + real list" where
  "rsm_loop A B I [] = Inr []"
| "rsm_loop A B I ((abs_mob, z) # rest) =
     (if I < 0 then Inl (ValueError ''math domain error'')
      else case rsm_loop A B I rest of
             Inl err \<Rightarrow> Inl err
           | Inr acc \<Rightarrow>
               Inr ((abs_mob - (A * abs_mob + B * copysign 1 (of_int z)) * sqrt I
                                 / (1 + aD * sqrt I)) # acc))"

definition robinson_stokes_mobility :: "env \<Rightarrow> ion \<Rightarrow> real \<Rightarrow> T_arg \<Rightarrow> error + real list" where
  "robinson_stokes_mobility e obj I T =
    (case rsm_coefficients e (effective_T obj T) of
       Inl err \<Rightarrow> Inl err
     | Inr (A, B) \<Rightarrow> rsm_loop A B I (zip (self_absolute_mobility obj) (self_z obj)))"

subsection \<open>Reachable instances and a stub environment\<close>

inductive reachable :: "env \<Rightarrow> ion \<Rightarrow> bool" for e :: env where
  constructed:
    "Ion_init e name z pKa_ref absolute_mobility_ref dH dCp nightingale_data T T_ref = Inr (self, ws)
     \<Longrightarrow> reachable e self"
| adjusted:
    "reachable e self \<Longrightarrow> set_T e self T = Inr (self', ws) \<Longrightarrow> reachable e self'"

definition stub_env :: env where
  "stub_env = \<lparr> viscosity = (\<lambda>T. 2 - T / 50),
                dielectric = (\<lambda>T. 88 - 0.4 * T),
                correct_pKa = self_pKa_ref,
                ionization_fraction =
                  (\<lambda>self pH. replicate (length (self_z0 self)) (1 / real (length (self_z0 self)))) \<rparr>"

definition acetic_acid :: ion where
  "acetic_acid =
     \<lparr> self_name = ''acetic_acid'', self_T = 25, self_T_ref = 25,
       self_dH = None, self_dCp = None, self_nightingale_data = None,
       self_nightingale_function = None, self_z = [- 1],
       self_pKa_ref = [4.76], self_absolute_mobility_ref = [- 4.24 / 10 ^ 8],
       self_pKa = [4.76], self_absolute_mobility = [- 4.24 / 10 ^ 8],
       self_z0 = [- 1, 0] \<rparr>"


subsection \<open>Sign consistency, as the specification words it\<close>

text \<open>
  \<^verbatim>\<open>sign(absolute_mobility[i]) == sign(z[i])\<close> for every index \<open>i\<close>, with \<open>sgn\<close> the sign
  function with values \<open>-1\<close>, \<open>0\<close> and \<open>1\<close>.
\<close>

definition sign_consistent :: "ion \<Rightarrow> bool" where
  "sign_consistent self =
     list_all2 (\<lambda>m z. sgn m = sgn (real_of_int z)) (self_absolute_mobility self) (self_z self)"

text \<open>The same for the mobilities that are not zero.\<close>

definition sign_consistent_nonzero :: "ion \<Rightarrow> bool" where
  "sign_consistent_nonzero self =
     list_all2 (\<lambda>m z. m \<noteq> 0 \<longrightarrow> sgn m = sgn (real_of_int z))
               (self_absolute_mobility self) (self_z self)"

text \<open>An instance with one positive charge state and a mobility of zero.\<close>

definition zero_mobility_ion :: ion where
  "zero_mobility_ion =
     \<lparr> self_name = ''x'', self_T = 25, self_T_ref = 25,
       self_dH = None, self_dCp = None, self_nightingale_data = None,
       self_nightingale_function = None, self_z = [1],
       self_pKa_ref = [3], self_absolute_mobility_ref = [0],
       self_pKa = [3], self_absolute_mobility = [0],
       self_z0 = [0, 1] \<rparr>"

text \<open>
  An instance with one positive charge state, built from a negative reference mobility.
\<close>

definition coerced_ion :: ion where
  "coerced_ion =
     \<lparr> self_name = ''x'', self_T = 25, self_T_ref = 25,
       self_dH = None, self_dCp = None, self_nightingale_data = None,
       self_nightingale_function = None, self_z = [1],
       self_pKa_ref = [3], self_absolute_mobility_ref = [- 5 / 10 ^ 8],
       self_pKa = [3], self_absolute_mobility = [5 / 10 ^ 8],
       self_z0 = [0, 1] \<rparr>"

text \<open>
  An instance built from one charge state, two reference pKa values and one reference
  mobility.
\<close>

definition truncated_ion :: ion where
  "truncated_ion =
     \<lparr> self_name = ''x'', self_T = 25, self_T_ref = 25,
       self_dH = None, self_dCp = None, self_nightingale_data = None,
       self_nightingale_function = None, self_z = [1],
       self_pKa_ref = [1, 2], self_absolute_mobility_ref = [1 / 10 ^ 8],
       self_pKa = [1], self_absolute_mobility = [1 / 10 ^ 8],
       self_z0 = [0, 1] \<rparr>"

subsection \<open>Serialization\<close>

text \<open>
  The dictionary that \<^verbatim>\<open>serialize\<close> builds, with its keys \<^verbatim>\<open>__ion__\<close>, \<^verbatim>\<open>name\<close>,
  \<^verbatim>\<open>z\<close>, \<^verbatim>\<open>pKa_ref\<close>, \<^verbatim>\<open>absolute_mobility_ref\<close>, \<^verbatim>\<open>dH\<close>, \<^verbatim>\<open>dCp\<close> and
  \<^verbatim>\<open>nightingale_data\<close>.
\<close>

record serial =
  ser_ion :: bool
  ser_name :: string
  ser_z :: "int list"
  ser_pKa_ref :: "real list"
  ser_absolute_mobility_ref :: "real list"
  ser_dH :: "real list option"
  ser_dCp :: "real list option"
  ser_nightingale_data :: "nightingale option"

text \<open>\<^verbatim>\<open>serialize(nested=True)\<close>\<close>

definition serialize_nested :: "ion \<Rightarrow> serial" where
  "serialize_nested self =
     \<lparr> ser_ion = True,
       ser_name = self_name self,
       ser_z = self_z self,
       ser_pKa_ref = self_pKa_ref self,
       ser_absolute_mobility_ref = self_absolute_mobility_ref self,
       ser_dH = self_dH self,
       ser_dCp = self_dCp self,
       ser_nightingale_data = self_nightingale_data self \<rparr>"

text \<open>
  A new instance from the fields of a serialized record:
  \<^verbatim>\<open>Ion(d['name'], d['z'], d['pKa_ref'], d['absolute_mobility_ref'], d['dH'], d['dCp'],
  d['nightingale_data'], T, T_ref)\<close>.
\<close>

definition Ion_from_serial :: "env \<Rightarrow> serial \<Rightarrow> real \<Rightarrow> real \<Rightarrow> error + (ion \<times> string list)" where
  "Ion_from_serial e d T T_ref =
     Ion_init e (ser_name d) (Seq (ser_z d)) (Seq (ser_pKa_ref d))
       (Seq (ser_absolute_mobility_ref d)) (ser_dH d) (ser_dCp d) (ser_nightingale_data d)
       T T_ref"

text \<open>
  An instance built from \<^verbatim>\<open>z=[1, -1]\<close>, \<^verbatim>\<open>pKa_ref=[9, 3]\<close> and
  \<^verbatim>\<open>absolute_mobility_ref=[2e-8, -3e-8]\<close>, and the instance built from its serialized
  fields.
\<close>

definition unsorted_ion :: ion where
  "unsorted_ion =
     \<lparr> self_name = ''x'', self_T = 25, self_T_ref = 25,
       self_dH = None, self_dCp = None, self_nightingale_data = None,
       self_nightingale_function = None, self_z = [- 1, 1],
       self_pKa_ref = [9, 3], self_absolute_mobility_ref = [2 / 10 ^ 8, - 3 / 10 ^ 8],
       self_pKa = [3, 9], self_absolute_mobility = [- 3 / 10 ^ 8, 2 / 10 ^ 8],
       self_z0 = [- 1, 0, 1] \<rparr>"

definition rebuilt_ion :: ion where
  "rebuilt_ion =
     \<lparr> self_name = ''x'', self_T = 25, self_T_ref = 25,
       self_dH = None, self_dCp = None, self_nightingale_data = None,
       self_nightingale_function = None, self_z = [- 1, 1],
       self_pKa_ref = [9, 3], self_absolute_mobility_ref = [2 / 10 ^ 8, - 3 / 10 ^ 8],
       self_pKa = [9, 3], self_absolute_mobility = [- 2 / 10 ^ 8, 3 / 10 ^ 8],
       self_z0 = [- 1, 0, 1] \<rparr>"

section \<open>Properties\<close>

subsection \<open>Sorting and adjustment\<close>

lemma py_min_Min: "xs \<noteq> [] \<Longrightarrow> py_min xs = Min (set xs)"
proof (cases xs)
  case (Cons a list)
  then show ?thesis using Min.set_eq_fold[of a list] by simp
qed simp

lemma py_max_Max: "xs \<noteq> [] \<Longrightarrow> py_max xs = Max (set xs)"
proof (cases xs)
  case (Cons a list)
  then show ?thesis using Max.set_eq_fold[of a list] by simp
qed simp

lemma sorted_map_fst:
  fixes xs :: "('a::linorder \<times> 'b::linorder) list"
  shows "sorted xs \<Longrightarrow> sorted (map fst xs)"
  by (induction xs) (auto simp: less_eq_prod_def)

lemma strict_keys_sorted:
  fixes xs :: "('a::linorder \<times> 'b::linorder) list"
  shows "sorted_wrt (<) (map fst xs) \<Longrightarrow> sorted xs"
  by (induction xs) (auto simp: less_eq_prod_def)

lemma z_sort_unfold:
  "z_sort self =
    (if sorted_states self = [] then Inl (ValueError ''not enough values to unpack'')
     else if set (map fst (sorted_states self))
             = {Min (set (map fst (sorted_states self))) .. Max (set (map fst (sorted_states self)))} - {0}
     then Inr (self\<lparr>self_z := map fst (sorted_states self), self_pKa := map (fst \<circ> snd) (sorted_states self),
                    self_absolute_mobility := map (snd \<circ> snd) (sorted_states self)\<rparr>)
     else Inl (AssertionError ''Charge states missing.''))"
proof (cases "sorted_states self")
  case Nil
  then show ?thesis by (simp add: z_sort_def)
next
  case (Cons t ts)
  have m: "py_min (map fst (t # ts)) = Min (set (map fst (t # ts)))"
      "py_max (map fst (t # ts)) = Max (set (map fst (t # ts)))"
    by (rule py_min_Min, simp) (rule py_max_Max, simp)
  have s: "\<And>A B :: int set. ((A - B) \<union> (B - A) = {}) = (A = B)" by blast
  have "z_sort self =
     (if set (map fst (t # ts)) = {Min (set (map fst (t # ts))) .. Max (set (map fst (t # ts)))} - {0}
     then Inr (self\<lparr>self_z := map fst (t # ts), self_pKa := map (fst \<circ> snd) (t # ts),
                    self_absolute_mobility := map (snd \<circ> snd) (t # ts)\<rparr>)
     else Inl (AssertionError ''Charge states missing.''))"
    unfolding z_sort_def Cons list.case Let_def m s set_upto ..
  then show ?thesis by (simp add: Cons)
qed

lemma z_sort_InrD:
  assumes "z_sort self = Inr self'"
  shows "sorted_states self \<noteq> []"
    and "self' = self\<lparr>self_z := map fst (sorted_states self), self_pKa := map (fst \<circ> snd) (sorted_states self),
                       self_absolute_mobility := map (snd \<circ> snd) (sorted_states self)\<rparr>"
    and "set (self_z self') = {Min (set (self_z self')) .. Max (set (self_z self'))} - {0}"
proof -
  from assms show ne: "sorted_states self \<noteq> []"
    unfolding z_sort_unfold by (simp split: if_splits)
  let ?zs = "map fst (sorted_states self)"
  from assms ne have run: "set ?zs = {Min (set ?zs) .. Max (set ?zs)} - {0}"
    unfolding z_sort_unfold by (simp split: if_splits)
  from assms ne run show eq: "self' = self\<lparr>self_z := map fst (sorted_states self),
      self_pKa := map (fst \<circ> snd) (sorted_states self),
      self_absolute_mobility := map (snd \<circ> snd) (sorted_states self)\<rparr>"
    unfolding z_sort_unfold by (simp split: if_splits)
  have "self_z self' = ?zs" by (simp add: eq)
  with run show "set (self_z self') = {Min (set (self_z self')) .. Max (set (self_z self'))} - {0}"
    by simp
qed

lemma z_sort_props:
  assumes "z_sort self = Inr self'"
  shows "self_z self' \<noteq> []"
    and "0 \<notin> set (self_z self')"
    and "sorted (self_z self')"
    and "length (self_pKa self') = length (self_z self')"
    and "length (self_absolute_mobility self') = length (self_z self')"
proof -
  note d = z_sort_InrD[OF assms]
  show "self_z self' \<noteq> []" using d(1) by (simp add: d(2))
  show "0 \<notin> set (self_z self')" using d(3) by blast
  show "sorted (self_z self')" by (simp add: d(2) sorted_states_def sorted_map_fst)
  show "length (self_pKa self') = length (self_z self')" by (simp add: d(2))
  show "length (self_absolute_mobility self') = length (self_z self')" by (simp add: d(2))
qed

lemma temperature_adjust_InrD:
  assumes "temperature_adjust e self = Inr (self', ws)"
  obtains self1 self2 where "adjust_values e self = Inr (self1, ws)"
    and "z_sort self1 = Inr self2" and "self' = set_z0 self2"
  using assms unfolding temperature_adjust_def
  by (auto split: sum.splits prod.splits)

lemma temperature_adjust_props:
  assumes "temperature_adjust e self = Inr (self', ws)"
  shows "self_z self' \<noteq> []"
    and "0 \<notin> set (self_z self')"
    and "sorted (self_z self')"
    and "length (self_pKa self') = length (self_z self')"
    and "length (self_absolute_mobility self') = length (self_z self')"
    and "set (self_z self') = {Min (set (self_z self')) .. Max (set (self_z self'))} - {0}"
    and "self_z0 self' = sort (0 # self_z self')"
proof -
  from assms obtain self1 self2 where s: "z_sort self1 = Inr self2" "self' = set_z0 self2"
    by (rule temperature_adjust_InrD)
  have z: "self_z self' = self_z self2" "self_pKa self' = self_pKa self2"
    "self_absolute_mobility self' = self_absolute_mobility self2"
    by (simp_all add: s(2) set_z0_def)
  show "self_z self' \<noteq> []" "0 \<notin> set (self_z self')" "sorted (self_z self')"
    "length (self_pKa self') = length (self_z self')"
    "length (self_absolute_mobility self') = length (self_z self')"
    unfolding z using z_sort_props[OF s(1)] by blast+
  show "set (self_z self') = {Min (set (self_z self')) .. Max (set (self_z self'))} - {0}"
    unfolding z by (rule z_sort_InrD(3)[OF s(1)])
  show "self_z0 self' = sort (0 # self_z self')" by (simp add: s(2) set_z0_def)
qed

lemma force_signs_fields:
  assumes "force_signs self ws = (self', ws')"
  shows "self_z self' = self_z self" and "self_pKa self' = self_pKa self"
    and "length (self_absolute_mobility self) = length (self_z self)
         \<Longrightarrow> length (self_absolute_mobility self') = length (self_z self)"
  using assms by (auto simp: force_signs_def split: if_splits)

lemma Ion_init_InrD:
  assumes "Ion_init e name z pKa_ref mob_ref dH dCp nd T T_ref = Inr (self, ws)"
  obtains self1 ws1 where
    "temperature_adjust e (init_attributes name z pKa_ref mob_ref dH dCp nd T T_ref) = Inr (self1, ws1)"
    and "force_signs self1 ws1 = (self, ws)"
  using assms unfolding Ion_init_def
  by (auto split: sum.splits prod.splits if_splits)

lemma Ion_init_of_adjust:
  assumes "temperature_adjust e (init_attributes name z pKa_ref mob_ref dH dCp nd T T_ref) = Inr (self1, ws1)"
  shows "Ion_init e name z pKa_ref mob_ref dH dCp nd T T_ref = Inr (force_signs self1 ws1)"
proof -
  obtain self2 ws2 where f: "force_signs self1 ws1 = (self2, ws2)" by (cases "force_signs self1 ws1")
  note p = temperature_adjust_props[OF assms]
  have "length (self_pKa self2) = length (self_z self2)"
    "length (self_absolute_mobility self2) = length (self_z self2)"
    using force_signs_fields[OF f] p(4,5) by simp_all
  then show ?thesis unfolding Ion_init_def by (simp add: assms f)
qed

subsection \<open>Diffusivity\<close>

lemmas init_eval =
  Ion_init_def init_attributes_def temperature_adjust_def adjust_values_def z_sort_def
  sorted_states_def   set_z0_def force_signs_def signs_match_def copysign_def less_eq_prod_def less_prod_def

lemma acetic_acid_constructed:
  "Ion_init stub_env ''acetic_acid'' (Seq [- 1]) (Seq [4.76]) (Seq [- 4.24 / 10 ^ 8])
     None None None 25 25 = Inr (acetic_acid, [])"
  by (simp add: init_eval acetic_acid_def)

lemma diffusivity_terms_nonzero:
  "0 \<notin> snd ` snd ` set ts \<Longrightarrow>
   diffusivity_terms ts = Inr (map (\<lambda>(m, f, z). m * f / of_int z) ts)"
  by (induction ts rule: diffusivity_terms.induct) auto

lemma reachable_no_zero: "reachable e self \<Longrightarrow> 0 \<notin> set (self_z self)"
proof (induction rule: reachable.induct)
  case (constructed name z pKa_ref absolute_mobility_ref dH dCp nightingale_data T T_ref self ws)
  then obtain self1 ws1 where
    t: "temperature_adjust e (init_attributes name z pKa_ref absolute_mobility_ref dH dCp
          nightingale_data T T_ref) = Inr (self1, ws1)"
    and f: "force_signs self1 ws1 = (self, ws)"
    by (rule Ion_init_InrD)
  from temperature_adjust_props(2)[OF t] force_signs_fields(1)[OF f] show ?case by simp
next
  case (adjusted self T self' ws)
  then show ?case by (simp add: set_T_def temperature_adjust_props(2))
qed

text \<open>
  Claim C8. Every instance that construction returns, and every instance that \<^verbatim>\<open>set_T\<close>
  returns from one, has no zero in its charge list \<open>z\<close>, so the comprehension of
  \<^verbatim>\<open>diffusivity\<close> computes every term \<^verbatim>\<open>m * f / float(z)\<close> and never raises
  \<^verbatim>\<open>ZeroDivisionError\<close>, at any pH and whatever \<^verbatim>\<open>ionization_fraction\<close> returns.
\<close>

theorem diffusivity_never_divides_by_zero_charge:
  assumes "reachable e self"
  shows "0 \<notin> set (self_z self) \<and>
         diffusivity_terms (zip (self_absolute_mobility self)
                                (zip (ionization_fraction e self pH) (self_z self)))
         = Inr (map (\<lambda>(m, f, z). m * f / of_int z)
                    (zip (self_absolute_mobility self)
                         (zip (ionization_fraction e self pH) (self_z self))))"
proof -
  have z: "0 \<notin> set (self_z self)" using assms by (rule reachable_no_zero)
  have "snd ` snd ` set (zip (self_absolute_mobility self)
          (zip (ionization_fraction e self pH) (self_z self))) \<subseteq> set (self_z self)"
    by (auto dest!: set_zip_rightD)
  with z have "0 \<notin> snd ` snd ` set (zip (self_absolute_mobility self)
          (zip (ionization_fraction e self pH) (self_z self)))" by blast
  then show ?thesis using z by (simp add: diffusivity_terms_nonzero)
qed

text \<open>The theorem at acetic acid, constructed at 25 degrees, and pH 4.76.\<close>

theorem diffusivity_never_divides_by_zero_charge_witness:
  "reachable stub_env acetic_acid \<and> 0 \<notin> set (self_z acetic_acid) \<and>
   diffusivity_terms (zip (self_absolute_mobility acetic_acid)
                          (zip (ionization_fraction stub_env acetic_acid 4.76) (self_z acetic_acid)))
     = Inr [4.24 / 10 ^ 8 / 2]"
proof -
  have r: "reachable stub_env acetic_acid"
    by (rule reachable.constructed[OF acetic_acid_constructed])
  from diffusivity_never_divides_by_zero_charge[OF r, of "4.76"] r show ?thesis
    by (simp add: acetic_acid_def stub_env_def)
qed

subsection \<open>Sign coercion\<close>

lemma copysign_fixed:
  "z \<noteq> 0 \<Longrightarrow> copysign z m = z \<Longrightarrow> copysign m z = m"
  by (auto simp: copysign_def split: if_splits)

lemma signs_match_coerce_id:
  assumes "0 \<notin> set zs" and "list_all (\<lambda>(z, m). copysign (of_int z) m = of_int z) (zip zs ms)"
    and "length ms = length zs"
  shows "map (\<lambda>(z, m). copysign m (of_int z)) (zip zs ms) = ms"
  using assms
proof (induction zs arbitrary: ms)
  case Nil
  then show ?case by simp
next
  case (Cons z zs)
  then obtain m ms' where ms: "ms = m # ms'" by (cases ms) auto
  from Cons.prems have "z \<noteq> 0" "copysign (of_int z) m = of_int z" by (auto simp: ms)
  then have "copysign m (of_int z) = m" by (simp add: copysign_fixed)
  moreover have "map (\<lambda>(z, m). copysign m (of_int z)) (zip zs ms') = ms'"
    using Cons.prems by (intro Cons.IH) (auto simp: ms)
  ultimately show ?case by (simp add: ms)
qed

lemma coerced_nonzero_signs:
  assumes "0 \<notin> set zs" and "length ms = length zs"
  shows "list_all2 (\<lambda>m z. m \<noteq> 0 \<longrightarrow> sgn m = sgn (real_of_int z))
           (map (\<lambda>(z, m). copysign m (of_int z)) (zip zs ms)) zs"
  using assms
proof (induction zs arbitrary: ms)
  case Nil
  then show ?case by simp
next
  case (Cons z zs)
  then obtain m ms' where ms: "ms = m # ms'" by (cases ms) auto
  have "z \<noteq> 0" using Cons.prems by auto
  then have "copysign m (of_int z) \<noteq> 0 \<longrightarrow> sgn (copysign m (of_int z)) = sgn (real_of_int z)"
    by (auto simp: copysign_def sgn_if)
  moreover have "list_all2 (\<lambda>m z. m \<noteq> 0 \<longrightarrow> sgn m = sgn (real_of_int z))
           (map (\<lambda>(z, m). copysign m (of_int z)) (zip zs ms')) zs"
    using Cons.prems by (intro Cons.IH) (auto simp: ms)
  ultimately show ?case by (simp add: ms)
qed

lemma force_signs_mobility:
  assumes "0 \<notin> set (self_z self)"
    and "length (self_absolute_mobility self) = length (self_z self)"
  shows "self_absolute_mobility (fst (force_signs self ws)) =
           map (\<lambda>(z, m). copysign m (of_int z)) (zip (self_z self) (self_absolute_mobility self))"
proof (cases "signs_match self")
  case True
  with assms show ?thesis
    by (simp add: force_signs_def signs_match_def signs_match_coerce_id)
next
  case False
  then show ?thesis by (simp add: force_signs_def)
qed

text \<open>
  Claim C1, as amended. Whenever the temperature adjustment of the constructor succeeds,
  the construction succeeds (a sign mismatch never makes it raise), and on the instance it
  returns every mobility that is not zero has the sign of its charge: the mobilities are
  the adjusted ones with the sign of their charge copied onto them, a zero mobility staying
  zero, and the warning is appended exactly when the test of the signs failed. A
  construction that succeeds is always of this kind (\<open>Ion_init_InrD\<close>).
\<close>

theorem construction_coerces_mobility_signs:
  assumes "temperature_adjust e
             (init_attributes name z pKa_ref absolute_mobility_ref dH dCp nightingale_data T T_ref)
           = Inr (self1, ws1)"
  shows "\<exists>self ws.
           Ion_init e name z pKa_ref absolute_mobility_ref dH dCp nightingale_data T T_ref
             = Inr (self, ws)
         \<and> sign_consistent_nonzero self
         \<and> self_z self = self_z self1
         \<and> self_absolute_mobility self =
             map (\<lambda>(z, m). copysign m (of_int z))
                 (zip (self_z self1) (self_absolute_mobility self1))
         \<and> ws = (if signs_match self1 then ws1
                 else ws1 @ [''Mobility signs and charge signs don't match.''])"
proof -
  note p = temperature_adjust_props[OF assms]
  obtain self ws where f: "force_signs self1 ws1 = (self, ws)"
    by (cases "force_signs self1 ws1")
  have i: "Ion_init e name z pKa_ref absolute_mobility_ref dH dCp nightingale_data T T_ref
             = Inr (self, ws)"
    using Ion_init_of_adjust[OF assms] f by simp
  have zs: "self_z self = self_z self1" by (rule force_signs_fields(1)[OF f])
  have mob: "self_absolute_mobility self =
             map (\<lambda>(z, m). copysign m (of_int z))
                 (zip (self_z self1) (self_absolute_mobility self1))"
    using force_signs_mobility[OF p(2) p(5), of ws1] f by simp
  have sc: "sign_consistent_nonzero self"
    unfolding sign_consistent_nonzero_def mob zs
    by (rule coerced_nonzero_signs[OF p(2) p(5)])
  have w: "ws = (if signs_match self1 then ws1
                 else ws1 @ [''Mobility signs and charge signs don't match.''])"
    using f by (auto simp: force_signs_def split: if_splits)
  from i sc zs mob w show ?thesis by blast
qed

text \<open>
  Claim C1 as stated fails for a mobility of zero: \<^verbatim>\<open>copysign(1, 0.0) == 1\<close> holds, so
  nothing is coerced, and the sign of the mobility \<open>0\<close> is not the sign of the charge \<open>1\<close>.
\<close>

theorem sign_consistency_counterexample:
  "Ion_init stub_env ''x'' (Seq [1]) (Seq [3]) (Seq [0]) None None None 25 25
     = Inr (zero_mobility_ion, [])
   \<and> \<not> sign_consistent zero_mobility_ion"
  by (simp add: init_eval zero_mobility_ion_def sign_consistent_def)

text \<open>
  The amended claim at \<^verbatim>\<open>z=[1]\<close>, \<^verbatim>\<open>absolute_mobility_ref=[-5e-8]\<close>, the example of the
  specification.
\<close>

lemma coerced_ion_adjusted:
  "temperature_adjust stub_env
     (init_attributes ''x'' (Seq [1]) (Seq [3]) (Seq [- 5 / 10 ^ 8]) None None None 25 25)
   = Inr (coerced_ion\<lparr>self_absolute_mobility := [- 5 / 10 ^ 8]\<rparr>, [])"
  by (simp add: init_eval coerced_ion_def)

lemma coerced_ion_constructed:
  "Ion_init stub_env ''x'' (Seq [1]) (Seq [3]) (Seq [- 5 / 10 ^ 8]) None None None 25 25
     = Inr (coerced_ion, [''Mobility signs and charge signs don't match.''])"
  by (simp add: init_eval coerced_ion_def)

theorem construction_coerces_mobility_signs_witness:
  "Ion_init stub_env ''x'' (Seq [1]) (Seq [3]) (Seq [- 5 / 10 ^ 8]) None None None 25 25
     = Inr (coerced_ion, [''Mobility signs and charge signs don't match.''])
   \<and> sign_consistent_nonzero coerced_ion"
proof -
  from construction_coerces_mobility_signs[OF coerced_ion_adjusted]
  obtain self ws where
    i: "Ion_init stub_env ''x'' (Seq [1]) (Seq [3]) (Seq [- 5 / 10 ^ 8]) None None None 25 25
          = Inr (self, ws)"
    and s: "sign_consistent_nonzero self"
    by blast
  from i have "self = coerced_ion" unfolding coerced_ion_constructed by simp
  with s have "sign_consistent_nonzero coerced_ion" by simp
  with coerced_ion_constructed show ?thesis by (rule conjI)
qed

end
